theory Spec2Isabelle
  imports Complex_Main "HOL-Library.FSet" "HOL-Library.Char_ord" "HOL-Library.List_Lexorder"
    "HOL-Library.Word"
begin

section \<open>The attendance simulator: store, client and endpoints\<close>

text \<open>
  The service of \<^verbatim>\<open>true_attendance_simulator.py\<close> keeps no state of its own: everything
  lives under three keys of a Redis store, \<^verbatim>\<open>secret_code\<close>, \<^verbatim>\<open>secret_timestamp\<close> and
  \<^verbatim>\<open>attendance_log\<close>. A key that was never written (or was deleted) reads as Python's
  \<^verbatim>\<open>None\<close>; the set behind \<^verbatim>\<open>attendance_log\<close> is a Redis set, finite and without
  duplicates, and a deleted set reads as the empty set.

  What the store holds are byte lists, and a \<^verbatim>\<open>str\<close> decoded from the store is given by
  those bytes, its UTF-8 encoding. The order of byte lists, first difference decides and a
  proper prefix is smaller, is the order of Python's \<^verbatim>\<open>str\<close>, since UTF-8 keeps the
  order of code points. A \<^verbatim>\<open>str\<close> that arrives in a request need not have an encoding
  (\<open>pystr\<close> below). Clock readings are real numbers.
\<close>

subsection \<open>Data\<close>

record store =
  secret_code :: "string option"
  secret_timestamp :: "real option"
  attendance_log :: "string fset"

definition empty_store :: store where
  "empty_store = \<lparr>secret_code = None, secret_timestamp = None, attendance_log = {||}\<rparr>"

text \<open>
  The module-level \<^verbatim>\<open>kv\<close>: \<^verbatim>\<open>None\<close> when \<^verbatim>\<open>Redis.from_url\<close> raised at start-up
  (\<open>NoKV\<close>), otherwise a client. A client whose server does not answer raises
  \<^verbatim>\<open>ConnectionError\<close> out of every command (\<open>Unreachable\<close>); nothing in the module
  catches it. \<open>Connected\<close> is a client whose commands go through.
\<close>

datatype kv = NoKV | Unreachable | Connected

datatype error = AttributeError | ConnectionError | UnicodeEncodeError

text \<open>
  A \<^verbatim>\<open>str\<close> of the request body. JSON admits the escape of a lone surrogate
  (\<^verbatim>\<open>"\ud800"\<close>), which \<^verbatim>\<open>get_json\<close> keeps, and a \<^verbatim>\<open>str\<close> holding one has no UTF-8
  encoding. A \<^verbatim>\<open>str\<close> is the list of its units in order: the UTF-8 bytes of each code
  point that has an encoding, and each lone surrogate as a unit of its own
  (\<open>Surrogate n\<close> is U+D800 + \<open>n\<close>, up to U+DFFF). Two \<^verbatim>\<open>str\<close> are equal exactly when
  their unit lists are, and the empty \<^verbatim>\<open>str\<close> is the empty list.
\<close>

datatype pychar = Utf8 char | Surrogate "11 word"

type_synonym pystr = "pychar list"

text \<open>The \<^verbatim>\<open>str\<close> that bytes of the store decode to.\<close>

definition of_bytes :: "string \<Rightarrow> pystr" where
  "of_bytes b = map Utf8 b"

text \<open>
  \<^verbatim>\<open>x.encode('utf-8')\<close>, as the client does with a \<^verbatim>\<open>str\<close> argument of a command: a
  lone surrogate raises \<^verbatim>\<open>UnicodeEncodeError\<close>.
\<close>

fun encode :: "pystr \<Rightarrow> error + string" where
  "encode [] = Inr []"
| "encode (Utf8 b # x) = (case encode x of Inl e \<Rightarrow> Inl e | Inr bs \<Rightarrow> Inr (b # bs))"
| "encode (Surrogate n # x) = Inl UnicodeEncodeError"

text \<open>The bytes among the units of a \<^verbatim>\<open>str\<close>: all of it when it has an encoding.\<close>

fun utf8 :: "pystr \<Rightarrow> string" where
  "utf8 [] = []"
| "utf8 (Utf8 b # x) = b # utf8 x"
| "utf8 (Surrogate n # x) = utf8 x"

text \<open>What \<^verbatim>\<open>jsonify({"status": ..., "message": ...}), code\<close> carries.\<close>

datatype response = Response (status: string) (message: string) (http: nat)

subsection \<open>The Redis client\<close>

text \<open>
  One command on \<^verbatim>\<open>kv\<close> whose answer would be \<open>v\<close>: calling a method on \<^verbatim>\<open>None\<close> is an
  \<^verbatim>\<open>AttributeError\<close>, an unreachable server a \<^verbatim>\<open>ConnectionError\<close>.
\<close>

definition kv_command :: "kv \<Rightarrow> 'a \<Rightarrow> error + 'a" where
  "kv_command k v =
     (case k of NoKV \<Rightarrow> Inl AttributeError
              | Unreachable \<Rightarrow> Inl ConnectionError
              | Connected \<Rightarrow> Inr v)"

text \<open>\<^verbatim>\<open>x.decode('utf-8')\<close> on the answer of \<^verbatim>\<open>kv.get\<close>: \<^verbatim>\<open>None\<close> has no \<^verbatim>\<open>decode\<close>.\<close>

definition decode :: "string option \<Rightarrow> error + string" where
  "decode x = (case x of None \<Rightarrow> Inl AttributeError | Some b \<Rightarrow> Inr b)"

text \<open>
  \<^verbatim>\<open>kv.sadd('attendance_log', member)\<close>: the member is encoded and added to the set;
  a member without an encoding raises and nothing is sent.
\<close>

definition sadd :: "kv \<Rightarrow> pystr \<Rightarrow> store \<Rightarrow> error + store" where
  "sadd k member s =
     (case kv_command k () of
        Inl e \<Rightarrow> Inl e
      | Inr u \<Rightarrow>
          (case encode member of
             Inl e \<Rightarrow> Inl e
           | Inr b \<Rightarrow> Inr (s\<lparr>attendance_log := finsert b (attendance_log s)\<rparr>)))"

text \<open>
  The pipeline of \<^verbatim>\<open>get_or_refresh_secret\<close>: \<^verbatim>\<open>set\<close>, \<^verbatim>\<open>set\<close>, \<^verbatim>\<open>delete\<close> queued and
  sent by \<^verbatim>\<open>execute\<close> as one transaction. It either applies all three or raises.
\<close>

definition pipeline_execute :: "kv \<Rightarrow> string \<Rightarrow> real \<Rightarrow> store \<Rightarrow> error + store" where
  "pipeline_execute k new_secret now s =
     kv_command k (s\<lparr>secret_code := Some new_secret,
                    secret_timestamp := Some now,
                    attendance_log := {||}\<rparr>)"

subsection \<open>Random codes\<close>

text \<open>\<^verbatim>\<open>string.ascii_uppercase + string.digits\<close>\<close>

definition alphabet :: string where
  "alphabet = ''ABCDEFGHIJKLMNOPQRSTUVWXYZ0123456789''"

text \<open>
  \<^verbatim>\<open>random.choices(population, k=k)\<close>: \<open>k\<close> independent picks of an element of the
  population. The random source is the parameter \<open>draw\<close>: the \<open>i\<close>-th pick is the
  element at index \<open>draw i\<close>, reduced into the range of the population. Every outcome of
  \<^verbatim>\<open>random.choices\<close> is the value at some \<open>draw\<close>.
\<close>

definition random_choices :: "'a list \<Rightarrow> nat \<Rightarrow> (nat \<Rightarrow> nat) \<Rightarrow> 'a list" where
  "random_choices population k draw =
     map (\<lambda>i. population ! (draw i mod length population)) [0..<k]"

subsection \<open>The functions of the module\<close>

definition SECRET_REFRESH_INTERVAL_SECONDS :: real where
  "SECRET_REFRESH_INTERVAL_SECONDS = 60"

text \<open>
  \<^verbatim>\<open>get_or_refresh_secret\<close>. It reads the clock twice: \<open>now1\<close> for the staleness test,
  \<open>now2\<close> for the timestamp it stores. The result is the returned string or the
  exception raised, with the store afterwards.
\<close>

definition get_or_refresh_secret ::
  "kv \<Rightarrow> real \<Rightarrow> real \<Rightarrow> (nat \<Rightarrow> nat) \<Rightarrow> store \<Rightarrow> (error + string) \<times> store" where
  "get_or_refresh_secret k now1 now2 draw s =
     (if k = NoKV then (Inr ''KV_NOT_AVAILABLE'', s)
      else case kv_command k (secret_timestamp s) of
        Inl e \<Rightarrow> (Inl e, s)
      | Inr ts \<Rightarrow>
          let last_update_time = (case ts of None \<Rightarrow> 0 | Some t \<Rightarrow> t);
              is_stale = (now1 - last_update_time > SECRET_REFRESH_INTERVAL_SECONDS)
          in if is_stale then
               let new_secret = random_choices alphabet 8 draw
               in (case pipeline_execute k new_secret now2 s of
                     Inl e \<Rightarrow> (Inl e, s)
                   | Inr s' \<Rightarrow> (Inr new_secret, s'))
             else (case kv_command k (secret_code s) of
                     Inl e \<Rightarrow> (Inl e, s)
                   | Inr b \<Rightarrow>
                       (case decode b of
                          Inl e \<Rightarrow> (Inl e, s)
                        | Inr c \<Rightarrow> (Inr c, s))))"

text \<open>
  \<^verbatim>\<open>verify_attendance\<close>. The two fields of the request body are \<^verbatim>\<open>data.get(...)\<close>:
  \<open>None\<close> when the key is absent, otherwise the \<^verbatim>\<open>str\<close> sent. \<^verbatim>\<open>not x\<close> holds of
  \<^verbatim>\<open>None\<close> and of the empty \<^verbatim>\<open>str\<close>, so past the first test both fields are non-empty
  (\<open>the\<close> is only applied there). The submitted code is compared with the decoded stored
  code. The message of the SUCCESS answer is built after \<^verbatim>\<open>kv.sadd\<close> has returned, so the
  identity in it has its encoding. The function does not read the clock.
\<close>

definition falsy :: "pystr option \<Rightarrow> bool" where
  "falsy x = (case x of None \<Rightarrow> True | Some v \<Rightarrow> v = [])"

definition verify_attendance ::
  "kv \<Rightarrow> pystr option \<Rightarrow> pystr option \<Rightarrow> store \<Rightarrow> (error + response) \<times> store" where
  "verify_attendance k student_id submitted_code s =
     (if falsy student_id \<or> falsy submitted_code
      then (Inr (Response ''FAILED'' ''Missing student_id or code.'' 400), s)
      else case kv_command k (secret_code s) of
        Inl e \<Rightarrow> (Inl e, s)
      | Inr b \<Rightarrow>
          (case decode b of
             Inl e \<Rightarrow> (Inl e, s)
           | Inr current_secret \<Rightarrow>
               if submitted_code = Some (of_bytes current_secret)
               then (case sadd k (the student_id) s of
                       Inl e \<Rightarrow> (Inl e, s)
                     | Inr s' \<Rightarrow>
                         (Inr (Response ''SUCCESS''
                                 (''Welcome, '' @ utf8 (the student_id)
                                    @ ''. Your attendance is confirmed.'')
                                 200), s'))
               else (Inr (Response ''FAILED''
                            ''Incorrect or expired code. Proxy attempt detected?'' 403), s)))"

text \<open>
  \<^verbatim>\<open>get_attendance_log\<close>: the members of the set, decoded and sorted; \<^verbatim>\<open>sorted\<close> of a
  duplicate-free collection is its one ascending arrangement.
\<close>

definition get_attendance_log :: "kv \<Rightarrow> store \<Rightarrow> (error + string list) \<times> store" where
  "get_attendance_log k s =
     (case kv_command k (attendance_log s) of
        Inl e \<Rightarrow> (Inl e, s)
      | Inr present_students_bytes \<Rightarrow> (Inr (sorted_list_of_fset present_students_bytes), s))"

subsection \<open>Sample inputs\<close>

text \<open>A store in the middle of an epoch, a store to be listed, and a random source.\<close>

definition example_store :: store where
  "example_store =
     \<lparr>secret_code = Some ''X7Q2M9AB'', secret_timestamp = Some 1000,
      attendance_log = {|''bob''|}\<rparr>"

definition unsorted_store :: store where
  "unsorted_store =
     \<lparr>secret_code = Some ''X7Q2M9AB'', secret_timestamp = Some 1000,
      attendance_log = {|''b1'', ''a2'', ''c0''|}\<rparr>"

text \<open>The identity \<^verbatim>\<open>"\ud800"\<close>: one lone surrogate.\<close>

definition lone_surrogate :: pystr where
  "lone_surrogate = [Surrogate 0]"

definition example_draw :: "nat \<Rightarrow> nat" where
  "example_draw i = 7 * i + 3"

text \<open>
  A store is coherent when a stored timestamp comes with a stored code: the two are only
  ever written together, by the pipeline.
\<close>

definition coherent :: "store \<Rightarrow> bool" where
  "coherent s = (secret_timestamp s = None \<or> secret_code s \<noteq> None)"

section \<open>Properties\<close>

subsection \<open>Library facts\<close>

lemma falsy_iff: "falsy x \<longleftrightarrow> x = None \<or> x = Some []"
  by (simp add: falsy_def split: option.splits)

lemma sorted_sorted_list_of_fset: "sorted (sorted_list_of_fset A)"
  by (simp add: sorted_list_of_fset.rep_eq)

lemma distinct_sorted_list_of_fset: "distinct (sorted_list_of_fset A)"
  by (simp add: sorted_list_of_fset.rep_eq)

lemma sorted_list_of_fset_empty: "sorted_list_of_fset {||} = []"
  by (simp add: sorted_list_of_fset.rep_eq)

lemma count_list_distinct: "distinct xs \<Longrightarrow> x \<in> set xs \<Longrightarrow> count_list xs x = 1"
  by (induction xs) (auto simp: count_list_0_iff)

subsection \<open>Codes\<close>

lemma length_random_choices: "length (random_choices population k draw) = k"
  by (simp add: random_choices_def)

lemma set_random_choices:
  assumes "population \<noteq> []"
  shows "set (random_choices population k draw) \<subseteq> set population"
proof
  fix x
  assume "x \<in> set (random_choices population k draw)"
  then obtain i where "x = population ! (draw i mod length population)"
    by (auto simp: random_choices_def)
  moreover from assms have "draw i mod length population < length population"
    by simp
  ultimately show "x \<in> set population"
    by simp
qed

lemma alphabet_nonempty: "alphabet \<noteq> []"
  by (simp add: alphabet_def)

text \<open>The alphabet is the upper-case letters and the digits, and has 36 symbols.\<close>

lemma alphabet_chars:
  "c \<in> set alphabet \<longleftrightarrow>
     (CHR ''A'' \<le> c \<and> c \<le> CHR ''Z'') \<or> (CHR ''0'' \<le> c \<and> c \<le> CHR ''9'')"
  by (cases c) (simp add: alphabet_def less_eq_char_def; blast)

lemma alphabet_size: "length alphabet = 36 \<and> distinct alphabet"
  by (simp add: alphabet_def)

lemma example_code: "random_choices alphabet 8 example_draw = ''DKRY5CJQ''"
  by code_simp

subsection \<open>The endpoints on a connected client\<close>

lemma encode_of_bytes: "encode (of_bytes b) = Inr b"
  by (induction b) (simp_all add: of_bytes_def)

lemma encode_Inr: "encode x = Inr b \<Longrightarrow> x = of_bytes b \<and> utf8 x = b"
  by (induction x arbitrary: b rule: encode.induct)
     (auto simp: of_bytes_def split: sum.splits)

lemma encode_Inl: "encode x = Inl e \<Longrightarrow> e = UnicodeEncodeError"
  by (induction x rule: encode.induct) (auto split: sum.splits)

lemma inj_of_bytes: "inj of_bytes"
  by (simp add: inj_on_def of_bytes_def)

lemma of_bytes_eq_iff: "of_bytes a = of_bytes b \<longleftrightarrow> a = b"
  using inj_of_bytes by (auto dest: injD)

lemma of_bytes_Nil_iff: "of_bytes b = [] \<longleftrightarrow> b = []"
  by (simp add: of_bytes_def)

lemma sadd_connected:
  "sadd Connected member s =
     (case encode member of
        Inl e \<Rightarrow> Inl e
      | Inr b \<Rightarrow> Inr (s\<lparr>attendance_log := finsert b (attendance_log s)\<rparr>))"
  by (simp add: sadd_def kv_command_def)

lemma verify_connected:
  assumes "student_id \<noteq> []" and "submitted_code \<noteq> []"
    and "secret_code s = Some current_secret"
  shows "verify_attendance Connected (Some student_id) (Some submitted_code) s =
     (if submitted_code = of_bytes current_secret
      then (case encode student_id of
              Inl e \<Rightarrow> (Inl e, s)
            | Inr member \<Rightarrow>
                (Inr (Response ''SUCCESS''
                        (''Welcome, '' @ member @ ''. Your attendance is confirmed.'') 200),
                 s\<lparr>attendance_log := finsert member (attendance_log s)\<rparr>))
      else (Inr (Response ''FAILED''
                   ''Incorrect or expired code. Proxy attempt detected?'' 403), s))"
  using assms
  by (auto simp: verify_attendance_def falsy_def kv_command_def decode_def sadd_def
      dest: encode_Inr split: sum.splits)

lemma log_connected:
  "get_attendance_log Connected s = (Inr (sorted_list_of_fset (attendance_log s)), s)"
  by (simp add: get_attendance_log_def kv_command_def)

lemma refresh_stale:
  assumes "SECRET_REFRESH_INTERVAL_SECONDS
             < now1 - (case secret_timestamp s of None \<Rightarrow> 0 | Some t \<Rightarrow> t)"
  shows "get_or_refresh_secret Connected now1 now2 draw s =
           (Inr (random_choices alphabet 8 draw),
            \<lparr>secret_code = Some (random_choices alphabet 8 draw),
             secret_timestamp = Some now2,
             attendance_log = {||}\<rparr>)"
  using assms
  by (cases s) (simp add: get_or_refresh_secret_def kv_command_def pipeline_execute_def Let_def)

lemma refresh_fresh:
  assumes "secret_timestamp s = Some ts" and "secret_code s = Some c"
    and "now1 - ts \<le> SECRET_REFRESH_INTERVAL_SECONDS"
  shows "get_or_refresh_secret Connected now1 now2 draw s = (Inr c, s)"
  using assms by (simp add: get_or_refresh_secret_def kv_command_def decode_def)

lemma refresh_unreachable:
  "get_or_refresh_secret Unreachable now1 now2 draw s = (Inl ConnectionError, s)"
  by (simp add: get_or_refresh_secret_def kv_command_def)

subsection \<open>Timestamp and code are written together\<close>

lemma coherent_empty_store: "coherent empty_store"
  by (simp add: coherent_def empty_store_def)

lemma coherent_refresh:
  "coherent s \<Longrightarrow> coherent (snd (get_or_refresh_secret k now1 now2 draw s))"
  by (cases k)
     (auto simp: coherent_def get_or_refresh_secret_def kv_command_def pipeline_execute_def
        decode_def Let_def split: option.splits)

lemma coherent_verify:
  "coherent s \<Longrightarrow> coherent (snd (verify_attendance k student_id submitted_code s))"
  by (cases k)
     (auto simp: coherent_def verify_attendance_def kv_command_def decode_def sadd_def
        split: option.splits sum.splits)

lemma coherent_log: "coherent s \<Longrightarrow> coherent (snd (get_attendance_log k s))"
  by (cases k) (simp_all add: get_attendance_log_def kv_command_def)

section \<open>The claims\<close>

subsection \<open>Submission\<close>

text \<open>
  C1, as stated: for every non-empty identity and code, a submitted code equal to the
  stored one is accepted and the identity is then listed. It does not hold for an
  identity with no UTF-8 encoding: with the stored code, \<^verbatim>\<open>kv.sadd\<close> raises
  \<^verbatim>\<open>UnicodeEncodeError\<close>, no answer is returned and the store is unchanged.
\<close>

theorem submit_lone_surrogate_raises_counterexample:
  "lone_surrogate \<noteq> [] \<and> of_bytes ''X7Q2M9AB'' \<noteq> []
   \<and> secret_code example_store = Some ''X7Q2M9AB''
   \<and> verify_attendance Connected (Some lone_surrogate) (Some (of_bytes ''X7Q2M9AB''))
        example_store
       = (Inl UnicodeEncodeError, example_store)"
  by (simp add: lone_surrogate_def example_store_def of_bytes_def verify_attendance_def
      falsy_def kv_command_def decode_def sadd_def)

text \<open>
  C1, amended. On a connected client with a stored code, for a non-empty identity and a
  non-empty code: when the submitted code equals the stored \<open>secret_code\<close> and the
  identity has a UTF-8 encoding, \<open>verify_attendance\<close> answers SUCCESS (200) and the
  listing returned by \<open>get_attendance_log\<close> afterwards contains the identity; when the
  code differs, the answer is FAILED (403), the store is unchanged, and the listing shows
  the identity only if it stood in the set before.
\<close>

theorem submit_correct_accepted_wrong_rejected:
  assumes "student_id \<noteq> []" and "submitted_code \<noteq> []"
    and "secret_code s = Some current_secret"
  shows "case verify_attendance Connected (Some student_id) (Some submitted_code) s of
           (r, s') \<Rightarrow>
             if submitted_code = of_bytes current_secret
             then encode student_id = Inr member \<longrightarrow>
                  r = Inr (Response ''SUCCESS''
                             (''Welcome, '' @ member @ ''. Your attendance is confirmed.'')
                             200)
                \<and> (\<exists>xs. get_attendance_log Connected s' = (Inr xs, s')
                        \<and> student_id \<in> set (map of_bytes xs))
             else r = Inr (Response ''FAILED''
                             ''Incorrect or expired code. Proxy attempt detected?'' 403)
                \<and> s' = s
                \<and> (\<exists>xs. get_attendance_log Connected s' = (Inr xs, s')
                        \<and> (student_id \<in> set (map of_bytes xs))
                            = (student_id \<in> of_bytes ` fset (attendance_log s)))"
proof (cases "submitted_code = of_bytes current_secret")
  case True
  show ?thesis
  proof (cases "encode student_id")
    case (Inl e)
    with True assms show ?thesis
      by (simp add: verify_connected)
  next
    case (Inr b)
    then have "student_id = of_bytes b"
      by (simp add: encode_Inr)
    with True Inr assms show ?thesis
      by (simp add: verify_connected log_connected)
  qed
next
  case False
  with assms show ?thesis
    by (simp add: verify_connected log_connected)
qed

theorem submit_correct_accepted_wrong_rejected_witness:
  "of_bytes ''alice'' \<noteq> [] \<and> of_bytes ''X7Q2M9AB'' \<noteq> [] \<and> of_bytes ''WRONG123'' \<noteq> []
   \<and> secret_code example_store = Some ''X7Q2M9AB''
   \<and> encode (of_bytes ''alice'') = Inr ''alice''
   \<and> fst (verify_attendance Connected (Some (of_bytes ''alice''))
             (Some (of_bytes ''X7Q2M9AB'')) example_store)
       = Inr (Response ''SUCCESS'' ''Welcome, alice. Your attendance is confirmed.'' 200)
   \<and> ''alice'' |\<in>| attendance_log
         (snd (verify_attendance Connected (Some (of_bytes ''alice''))
                 (Some (of_bytes ''X7Q2M9AB'')) example_store))
   \<and> verify_attendance Connected (Some (of_bytes ''alice'')) (Some (of_bytes ''WRONG123''))
         example_store
       = (Inr (Response ''FAILED''
                 ''Incorrect or expired code. Proxy attempt detected?'' 403), example_store)"
proof -
  have h: "secret_code example_store = Some ''X7Q2M9AB''"
    by (simp add: example_store_def)
  have a: "of_bytes ''alice'' \<noteq> []" and c: "of_bytes ''X7Q2M9AB'' \<noteq> []"
    and w: "of_bytes ''WRONG123'' \<noteq> []"
    by (simp_all add: of_bytes_def)
  have e: "encode (of_bytes ''alice'') = Inr ''alice''"
    by (rule encode_of_bytes)
  have ne: "of_bytes ''WRONG123'' \<noteq> of_bytes ''X7Q2M9AB''"
    by (simp add: of_bytes_def)
  show ?thesis
    using h a c w e ne
      submit_correct_accepted_wrong_rejected [OF a c h, of "''alice''"]
      submit_correct_accepted_wrong_rejected [OF a w h, of "''alice''"]
    by (auto simp: log_connected of_bytes_eq_iff split: prod.splits)
qed

text \<open>
  C6. When the identity is absent or empty, or the code is absent or empty,
  \<open>verify_attendance\<close> answers FAILED with status 400 and the message
  "Missing student_id or code.", whatever the client, and the store is unchanged.
\<close>

theorem submit_missing_field:
  assumes "student_id = None \<or> student_id = Some [] \<or>
           submitted_code = None \<or> submitted_code = Some []"
  shows "verify_attendance k student_id submitted_code s =
           (Inr (Response ''FAILED'' ''Missing student_id or code.'' 400), s)"
proof -
  from assms have "falsy student_id \<or> falsy submitted_code"
    by (auto simp: falsy_iff)
  then show ?thesis
    by (simp add: verify_attendance_def)
qed

theorem submit_missing_field_witness:
  "verify_attendance Connected (Some []) (Some (of_bytes ''ABC123'')) example_store =
     (Inr (Response ''FAILED'' ''Missing student_id or code.'' 400), example_store)
   \<and> verify_attendance Connected (Some (of_bytes ''s1'')) (Some []) example_store =
     (Inr (Response ''FAILED'' ''Missing student_id or code.'' 400), example_store)
   \<and> verify_attendance NoKV None (Some (of_bytes ''ABC123'')) example_store =
     (Inr (Response ''FAILED'' ''Missing student_id or code.'' 400), example_store)"
  using submit_missing_field [of "Some []" "Some (of_bytes ''ABC123'')" Connected example_store]
    submit_missing_field [of "Some (of_bytes ''s1'')" "Some []" Connected example_store]
    submit_missing_field [of None "Some (of_bytes ''ABC123'')" NoKV example_store]
  by simp

text \<open>
  C7. \<open>verify_attendance\<close> never rotates: for every client, every pair of fields and
  every store, however old its timestamp, \<open>secret_code\<close> and \<open>secret_timestamp\<close> are
  afterwards what they were. With both fields non-empty, whenever it answers, the answer
  is SUCCESS exactly when the submitted code equals the code stored at the call.
\<close>

theorem submit_never_rotates:
  "secret_code (snd (verify_attendance k student_id submitted_code s)) = secret_code s
   \<and> secret_timestamp (snd (verify_attendance k student_id submitted_code s))
       = secret_timestamp s
   \<and> (\<not> falsy student_id \<and> \<not> falsy submitted_code \<longrightarrow>
        (case fst (verify_attendance k student_id submitted_code s) of
           Inl e \<Rightarrow> True
         | Inr r \<Rightarrow> (status r = ''SUCCESS'')
                      = (submitted_code = map_option of_bytes (secret_code s))))"
proof (cases k)
  case Connected
  then show ?thesis
    by (cases "secret_code s"; cases "encode (the student_id)")
       (simp_all add: verify_attendance_def kv_command_def decode_def sadd_def)
qed (simp_all add: verify_attendance_def kv_command_def)

theorem submit_never_rotates_witness:
  "\<not> falsy (Some (of_bytes ''alice'')) \<and> \<not> falsy (Some (of_bytes ''X7Q2M9AB''))
   \<and> secret_code (snd (verify_attendance Connected (Some (of_bytes ''alice''))
         (Some (of_bytes ''X7Q2M9AB'')) example_store)) = Some ''X7Q2M9AB''
   \<and> secret_timestamp (snd (verify_attendance Connected (Some (of_bytes ''alice''))
         (Some (of_bytes ''X7Q2M9AB'')) example_store)) = Some 1000
   \<and> status (projr (fst (verify_attendance Connected (Some (of_bytes ''alice''))
         (Some (of_bytes ''X7Q2M9AB'')) example_store))) = ''SUCCESS''"
  using submit_never_rotates
    [of Connected "Some (of_bytes ''alice'')" "Some (of_bytes ''X7Q2M9AB'')" example_store]
  by (simp add: falsy_def example_store_def verify_attendance_def kv_command_def decode_def
      sadd_def encode_of_bytes of_bytes_Nil_iff)

text \<open>
  C9, as stated: for every identity, after two submissions with the correct code the
  identity appears exactly once in the listing. It does not hold for an identity with no
  UTF-8 encoding: both submissions raise \<^verbatim>\<open>UnicodeEncodeError\<close> and the listing, here
  only "bob", does not contain the identity.
\<close>

theorem submit_lone_surrogate_twice_counterexample:
  "verify_attendance Connected (Some lone_surrogate) (Some (of_bytes ''X7Q2M9AB''))
     (snd (verify_attendance Connected (Some lone_surrogate) (Some (of_bytes ''X7Q2M9AB''))
             example_store))
     = (Inl UnicodeEncodeError, example_store)
   \<and> get_attendance_log Connected example_store = (Inr [''bob''], example_store)
   \<and> count_list (map of_bytes [''bob'']) lone_surrogate = 0"
proof -
  have l: "sorted_list_of_fset {|''bob''|} = [''bob'']"
    by code_simp
  show ?thesis
    by (simp add: lone_surrogate_def example_store_def of_bytes_def verify_attendance_def
        falsy_def kv_command_def decode_def sadd_def get_attendance_log_def l)
qed

text \<open>
  C9, amended. On a connected client, submitting a non-empty identity twice with the
  stored (non-empty) code: the second submission gives the same result and leaves the
  store as the first left it; when the identity has a UTF-8 encoding, the listing
  contains it exactly once.
\<close>

theorem submit_twice_idempotent:
  assumes "student_id \<noteq> []" and "code \<noteq> []" and "secret_code s = Some code"
  shows "case verify_attendance Connected (Some student_id) (Some (of_bytes code)) s of
           (r1, s1) \<Rightarrow>
             (case verify_attendance Connected (Some student_id) (Some (of_bytes code)) s1 of
                (r2, s2) \<Rightarrow>
                  s2 = s1 \<and> r2 = r1
                  \<and> (encode student_id = Inr member \<longrightarrow>
                       (\<exists>xs. get_attendance_log Connected s2 = (Inr xs, s2)
                             \<and> count_list (map of_bytes xs) student_id = 1)))"
proof (cases "encode student_id")
  case (Inl e)
  have c: "of_bytes code \<noteq> []"
    using assms(2) by (simp add: of_bytes_Nil_iff)
  have "verify_attendance Connected (Some student_id) (Some (of_bytes code)) s = (Inl e, s)"
    using Inl by (simp add: verify_connected [OF assms(1) c assms(3)])
  with Inl show ?thesis
    by simp
next
  case (Inr b)
  let ?ok = "Inr (Response ''SUCCESS''
                    (''Welcome, '' @ b @ ''. Your attendance is confirmed.'') 200)"
  let ?s1 = "s\<lparr>attendance_log := finsert b (attendance_log s)\<rparr>"
  have c: "of_bytes code \<noteq> []"
    using assms(2) by (simp add: of_bytes_Nil_iff)
  have sid: "student_id = of_bytes b"
    using Inr by (simp add: encode_Inr)
  have first: "verify_attendance Connected (Some student_id) (Some (of_bytes code)) s
                 = (?ok, ?s1)"
    using Inr by (simp add: verify_connected [OF assms(1) c assms(3)])
  have stored: "secret_code ?s1 = Some code"
    using assms(3) by simp
  have again: "verify_attendance Connected (Some student_id) (Some (of_bytes code)) ?s1
                 = (?ok, ?s1)"
    using Inr by (simp add: verify_connected [OF assms(1) c stored])
  have "distinct (map of_bytes (sorted_list_of_fset (attendance_log ?s1)))"
    by (simp add: distinct_map distinct_sorted_list_of_fset inj_on_def of_bytes_eq_iff)
  moreover have "student_id \<in> set (map of_bytes (sorted_list_of_fset (attendance_log ?s1)))"
    using sid by simp
  ultimately have
    once: "count_list (map of_bytes (sorted_list_of_fset (attendance_log ?s1))) student_id = 1"
    by (rule count_list_distinct)
  show ?thesis
    using once by (simp add: first again log_connected)
qed

theorem submit_twice_idempotent_witness:
  "of_bytes ''alice'' \<noteq> [] \<and> ''X7Q2M9AB'' \<noteq> []
   \<and> secret_code example_store = Some ''X7Q2M9AB''
   \<and> encode (of_bytes ''alice'') = Inr ''alice''
   \<and> (case verify_attendance Connected (Some (of_bytes ''alice''))
              (Some (of_bytes ''X7Q2M9AB'')) example_store of
         (r1, s1) \<Rightarrow>
           (case verify_attendance Connected (Some (of_bytes ''alice''))
                   (Some (of_bytes ''X7Q2M9AB'')) s1 of
              (r2, s2) \<Rightarrow>
                s2 = s1 \<and> r2 = r1
                \<and> (\<exists>xs. get_attendance_log Connected s2 = (Inr xs, s2)
                        \<and> count_list (map of_bytes xs) (of_bytes ''alice'') = 1)))"
proof -
  have h: "secret_code example_store = Some ''X7Q2M9AB''"
    by (simp add: example_store_def)
  have a: "of_bytes ''alice'' \<noteq> []" and c: "''X7Q2M9AB'' \<noteq> []"
    by (simp_all add: of_bytes_def)
  have e: "encode (of_bytes ''alice'') = Inr ''alice''"
    by (rule encode_of_bytes)
  show ?thesis
    using h a e submit_twice_idempotent [OF a c h, of "''alice''"]
    by (auto split: prod.splits)
qed

text \<open>
  C10. On a connected client whose store holds no \<open>secret_code\<close> (as before the first
  rotation), \<open>verify_attendance\<close> with non-empty identity and code raises
  \<^verbatim>\<open>AttributeError\<close> (decoding \<^verbatim>\<open>None\<close>) and leaves the store unchanged; whenever it
  returns an answer for such fields, a code is stored.
\<close>

theorem submit_before_first_rotation_raises:
  assumes "student_id \<noteq> []" and "submitted_code \<noteq> []"
  shows "(secret_code s = None \<longrightarrow>
            verify_attendance Connected (Some student_id) (Some submitted_code) s
              = (Inl AttributeError, s))
       \<and> (\<not> isl (fst (verify_attendance Connected (Some student_id) (Some submitted_code) s))
            \<longrightarrow> secret_code s \<noteq> None)"
proof (cases "secret_code s")
  case None
  with assms show ?thesis
    by (simp add: verify_attendance_def falsy_def kv_command_def decode_def)
next
  case (Some c)
  then show ?thesis
    by simp
qed

theorem submit_before_first_rotation_raises_witness:
  "of_bytes ''alice'' \<noteq> [] \<and> of_bytes ''X7Q2M9AB'' \<noteq> [] \<and> secret_code empty_store = None
   \<and> verify_attendance Connected (Some (of_bytes ''alice'')) (Some (of_bytes ''X7Q2M9AB''))
         empty_store
       = (Inl AttributeError, empty_store)
   \<and> \<not> isl (fst (verify_attendance Connected (Some (of_bytes ''alice''))
                    (Some (of_bytes ''X7Q2M9AB'')) example_store))
   \<and> secret_code example_store \<noteq> None"
proof -
  have a: "of_bytes ''alice'' \<noteq> []" and c: "of_bytes ''X7Q2M9AB'' \<noteq> []"
    by (simp_all add: of_bytes_def)
  have r: "\<not> isl (fst (verify_attendance Connected (Some (of_bytes ''alice''))
                          (Some (of_bytes ''X7Q2M9AB'')) example_store))"
    by (simp add: verify_attendance_def falsy_def kv_command_def decode_def sadd_def
        example_store_def encode_of_bytes of_bytes_Nil_iff)
  show ?thesis
    using a c r
      submit_before_first_rotation_raises [OF a c, of empty_store]
      submit_before_first_rotation_raises [OF a c, of example_store]
    by (simp add: empty_store_def)
qed

subsection \<open>Rotation\<close>

text \<open>
  C2. On a connected client, when the time since the stored timestamp (0 when none is
  stored) exceeds the refresh interval, \<open>get_or_refresh_secret\<close> draws a new code of 8
  characters, each of the alphabet A-Z, 0-9, returns it, and leaves the store with
  \<open>secret_code\<close> the new code, \<open>secret_timestamp\<close> the clock reading taken at the write,
  and an empty \<open>attendance_log\<close>. The three writes go together: when the server does not
  answer, the call raises and the store is as it was.
\<close>

theorem stale_secret_rotates:
  assumes "SECRET_REFRESH_INTERVAL_SECONDS
             < now1 - (case secret_timestamp s of None \<Rightarrow> 0 | Some t \<Rightarrow> t)"
  shows "get_or_refresh_secret Connected now1 now2 draw s =
           (Inr (random_choices alphabet 8 draw),
            \<lparr>secret_code = Some (random_choices alphabet 8 draw),
             secret_timestamp = Some now2,
             attendance_log = {||}\<rparr>)
         \<and> length (random_choices alphabet 8 draw) = 8
         \<and> (\<forall>c \<in> set (random_choices alphabet 8 draw).
               (CHR ''A'' \<le> c \<and> c \<le> CHR ''Z'') \<or> (CHR ''0'' \<le> c \<and> c \<le> CHR ''9''))
         \<and> get_or_refresh_secret Unreachable now1 now2 draw s = (Inl ConnectionError, s)"
proof -
  have "set (random_choices alphabet 8 draw) \<subseteq> set alphabet"
    by (rule set_random_choices [OF alphabet_nonempty])
  then have "\<forall>c \<in> set (random_choices alphabet 8 draw).
               (CHR ''A'' \<le> c \<and> c \<le> CHR ''Z'') \<or> (CHR ''0'' \<le> c \<and> c \<le> CHR ''9'')"
    using alphabet_chars by blast
  then show ?thesis
    by (simp only: refresh_stale [OF assms] length_random_choices refresh_unreachable simp_thms)
qed

theorem stale_secret_rotates_witness:
  "SECRET_REFRESH_INTERVAL_SECONDS
     < 1061 - (case secret_timestamp example_store of None \<Rightarrow> 0 | Some t \<Rightarrow> t)
   \<and> get_or_refresh_secret Connected 1061 1062 example_draw example_store =
       (Inr ''DKRY5CJQ'',
        \<lparr>secret_code = Some ''DKRY5CJQ'', secret_timestamp = Some 1062,
         attendance_log = {||}\<rparr>)"
proof -
  have h: "SECRET_REFRESH_INTERVAL_SECONDS
             < 1061 - (case secret_timestamp example_store of None \<Rightarrow> 0 | Some t \<Rightarrow> t)"
    by (simp add: SECRET_REFRESH_INTERVAL_SECONDS_def example_store_def)
  show ?thesis
    using h stale_secret_rotates [OF h, of 1062 example_draw]
    by (simp add: example_code)
qed

text \<open>
  C3. On a connected client, for a store holding a code and a timestamp, two calls of
  \<open>get_or_refresh_secret\<close> whose clock readings are both within the refresh interval of
  the stored timestamp return the same code, the stored one, and neither changes the
  store.
\<close>

theorem fresh_secret_is_stable:
  assumes "secret_timestamp s = Some ts" and "secret_code s = Some c"
    and "now_a - ts \<le> SECRET_REFRESH_INTERVAL_SECONDS"
    and "now_b - ts \<le> SECRET_REFRESH_INTERVAL_SECONDS"
  shows "case get_or_refresh_secret Connected now_a write_a draw_a s of
           (r1, s1) \<Rightarrow>
             (case get_or_refresh_secret Connected now_b write_b draw_b s1 of
                (r2, s2) \<Rightarrow> r1 = Inr c \<and> r2 = Inr c \<and> s1 = s \<and> s2 = s1)"
  by (simp add: refresh_fresh [OF assms(1,2,3)] refresh_fresh [OF assms(1,2,4)])

theorem fresh_secret_is_stable_witness:
  "secret_timestamp example_store = Some 1000 \<and> secret_code example_store = Some ''X7Q2M9AB''
   \<and> 1010 - 1000 \<le> SECRET_REFRESH_INTERVAL_SECONDS
   \<and> 1060 - 1000 \<le> SECRET_REFRESH_INTERVAL_SECONDS
   \<and> get_or_refresh_secret Connected 1010 1011 example_draw example_store
       = (Inr ''X7Q2M9AB'', example_store)
   \<and> get_or_refresh_secret Connected 1060 1061 example_draw example_store
       = (Inr ''X7Q2M9AB'', example_store)"
proof -
  have ts: "secret_timestamp example_store = Some 1000"
    and c: "secret_code example_store = Some ''X7Q2M9AB''"
    by (simp_all add: example_store_def)
  have t1: "1010 - 1000 \<le> SECRET_REFRESH_INTERVAL_SECONDS"
    and t2: "1060 - 1000 \<le> SECRET_REFRESH_INTERVAL_SECONDS"
    by (simp_all add: SECRET_REFRESH_INTERVAL_SECONDS_def)
  show ?thesis
    using ts c t1 t2
      fresh_secret_is_stable [OF ts c t1 t2, where write_a = 1011 and draw_a = example_draw
        and write_b = 1061 and draw_b = example_draw]
    by (auto split: prod.splits)
qed

text \<open>
  C4. On a connected client, an identity that is in \<open>attendance_log\<close> when a stale call
  of \<open>get_or_refresh_secret\<close> rotates the code is not in it afterwards: the set is empty
  and \<open>get_attendance_log\<close> lists nobody.
\<close>

theorem rotation_discards_present_set:
  assumes "identity |\<in>| attendance_log s"
    and "SECRET_REFRESH_INTERVAL_SECONDS
           < now1 - (case secret_timestamp s of None \<Rightarrow> 0 | Some t \<Rightarrow> t)"
  shows "case get_or_refresh_secret Connected now1 now2 draw s of
           (r, s') \<Rightarrow> attendance_log s' = {||} \<and> identity |\<notin>| attendance_log s'
                     \<and> get_attendance_log Connected s' = (Inr [], s')"
  by (simp add: refresh_stale [OF assms(2)] log_connected sorted_list_of_fset_empty)

theorem rotation_discards_present_set_witness:
  "''bob'' |\<in>| attendance_log example_store
   \<and> SECRET_REFRESH_INTERVAL_SECONDS
       < 1061 - (case secret_timestamp example_store of None \<Rightarrow> 0 | Some t \<Rightarrow> t)
   \<and> attendance_log (snd (get_or_refresh_secret Connected 1061 1062 example_draw
                             example_store)) = {||}
   \<and> ''bob'' |\<notin>| attendance_log (snd (get_or_refresh_secret Connected 1061 1062
                                          example_draw example_store))"
proof -
  have b: "''bob'' |\<in>| attendance_log example_store"
    by (simp add: example_store_def)
  have h: "SECRET_REFRESH_INTERVAL_SECONDS
             < 1061 - (case secret_timestamp example_store of None \<Rightarrow> 0 | Some t \<Rightarrow> t)"
    by (simp add: SECRET_REFRESH_INTERVAL_SECONDS_def example_store_def)
  show ?thesis
    using b h rotation_discards_present_set [OF b h, of 1062 example_draw]
    by (auto split: prod.splits)
qed

text \<open>
  C5, as stated: a call of \<open>get_or_refresh_secret\<close> while the store cannot be reached
  fails and returns no made-up code. It does not hold when the client was never created:
  the call then returns the placeholder.
\<close>

theorem no_client_returns_placeholder_counterexample:
  "\<not> isl (fst (get_or_refresh_secret NoKV 1061 1062 example_draw example_store))
   \<and> fst (get_or_refresh_secret NoKV 1061 1062 example_draw example_store)
       = Inr ''KV_NOT_AVAILABLE''"
  by (simp add: get_or_refresh_secret_def)

text \<open>
  C5, amended: when the client was never created (\<^verbatim>\<open>kv\<close> is \<^verbatim>\<open>None\<close>),
  \<open>get_or_refresh_secret\<close> returns the fixed string "KV_NOT_AVAILABLE" as its result and
  leaves the store unchanged; when the client exists and its server does not answer, the
  call fails with \<^verbatim>\<open>ConnectionError\<close>, returns no code, and leaves the store unchanged.
\<close>

theorem unavailable_store_placeholder_or_error:
  "get_or_refresh_secret NoKV now1 now2 draw s = (Inr ''KV_NOT_AVAILABLE'', s)
   \<and> get_or_refresh_secret Unreachable now1 now2 draw s = (Inl ConnectionError, s)"
  by (simp add: get_or_refresh_secret_def kv_command_def)

subsection \<open>Listing\<close>

text \<open>
  C8. On a connected client \<open>get_attendance_log\<close> returns a list whose elements are
  exactly the members of \<open>attendance_log\<close>, in ascending lexicographic order and without
  repetition; for the empty set it returns the empty list; the store is unchanged.
\<close>

theorem listing_sorted_members:
  "(case get_attendance_log Connected s of
      (r, s') \<Rightarrow>
        s' = s
        \<and> (\<exists>xs. r = Inr xs \<and> set xs = fset (attendance_log s) \<and> sorted xs \<and> distinct xs
                \<and> (attendance_log s = {||}) = (xs = [])))"
proof -
  let ?xs = "sorted_list_of_fset (attendance_log s)"
  have "set ?xs = fset (attendance_log s)"
    by simp
  moreover have "sorted ?xs" and "distinct ?xs"
    by (rule sorted_sorted_list_of_fset, rule distinct_sorted_list_of_fset)
  moreover have "(attendance_log s = {||}) = (?xs = [])"
    by (metis sorted_list_of_fset_empty sorted_list_of_fset_simps(2))
  ultimately show ?thesis
    by (simp add: log_connected)
qed

theorem listing_sorted_members_witness:
  "get_attendance_log Connected unsorted_store = (Inr [''a2'', ''b1'', ''c0''], unsorted_store)
   \<and> get_attendance_log Connected empty_store = (Inr [], empty_store)"
proof -
  have e: "sorted_list_of_fset {|''b1'', ''a2'', ''c0''|} = [''a2'', ''b1'', ''c0'']"
    by code_simp
  show ?thesis
    using listing_sorted_members [of unsorted_store] listing_sorted_members [of empty_store]
    by (simp add: log_connected unsorted_store_def empty_store_def e sorted_list_of_fset_empty)
qed

end
